theory Spec2Isabelle
  imports Complex_Main "HOL-Library.Log_Nat"
begin

section \<open>PerpTradeSim: the trend-following strategy engine and its coordinator\<close>

text \<open>
  A shallow embedding of \<^verbatim>\<open>strategy.py\<close> (classes \<^verbatim>\<open>Position\<close>, \<^verbatim>\<open>Trade\<close>,
  \<^verbatim>\<open>TrendFollowingStrategy\<close>) and of the parts of \<^verbatim>\<open>trading_bot.py\<close> that act on
  the engine (\<^verbatim>\<open>TradingBot\<close>).

  Conventions of the model:
  \<^item> A Python \<^verbatim>\<open>float\<close> is an IEEE 754 double. Its value is modelled as the \<open>real\<close> number it
    stands for, and every arithmetic operation of the engine is the exact operation
    followed by \<open>round_double\<close>: rounding to the nearest double, ties to even, with a
    53-bit significand and gradual underflow. A decimal literal of the source is the
    rounding of its decimal value. Comparisons are exact. Infinities and NaN have no
    counterpart (a result too large for a double is rounded like any other), except for
    the one place where the source produces \<^verbatim>\<open>float('inf')\<close> on purpose, which has a
    constructor of its own; the sign of zero is not kept. The sums and means of the
    statistics snapshot are taken as the exact sums and quotients.
  \<^item> Python \<^verbatim>\<open>int\<close> is \<open>int\<close>, \<^verbatim>\<open>str\<close> is \<open>string\<close>, \<^verbatim>\<open>Optional[T]\<close> is \<open>T option\<close>.
  \<^item> \<^verbatim>\<open>datetime\<close> values are opaque to the engine (stored, never compared); they are
    modelled as integers, and \<^verbatim>\<open>datetime.now()\<close> is a parameter.
  \<^item> Methods that mutate \<^verbatim>\<open>self\<close> take the state and return the result with the new
    state. A raised exception is a result too: the state a method leaves behind when it
    raises is returned beside it, since the object survives the exception.
  \<^item> Logging calls do not touch the state and are left out.
\<close>

subsection \<open>Double-precision arithmetic\<close>

text \<open>Rounding a real number to the nearest integer, ties to the even one.\<close>

definition round_even :: "real \<Rightarrow> int" where
  "round_even x =
     (let f = \<lfloor>x\<rfloor>; d = x - of_int f
      in if d < 1 / 2 then f else if 1 / 2 < d then f + 1
         else if even f then f else f + 1)"

text \<open>The binary exponent \<open>e\<close> of a non-zero number: \<open>2 ^ e \<le> \<bar>x\<bar> < 2 ^ (e + 1)\<close>, computed
  from the bit length of an integer.\<close>

definition binade :: "real \<Rightarrow> int" where
  "binade x =
     (if 1 \<le> \<bar>x\<bar> then bitlen \<lfloor>\<bar>x\<bar>\<rfloor> - 1 else - bitlen (\<lceil>1 / \<bar>x\<bar>\<rceil> - 1))"

text \<open>The nearest double: the spacing of the doubles around \<open>x\<close> is \<open>2 ^ (e - 52)\<close>, where
  the exponent \<open>e\<close> is not taken below \<open>-1022\<close> (subnormal numbers).\<close>

definition round_double :: "real \<Rightarrow> real" where
  "round_double x =
     (if x = 0 then 0
      else let u = max (binade x) (- 1022) - 52
           in of_int (round_even (x / 2 powi u)) * 2 powi u)"

definition is_double :: "real \<Rightarrow> bool" where
  "is_double x \<longleftrightarrow> round_double x = x"

text \<open>The four operations on doubles. Division is only used where the source has already
  excluded a zero divisor.\<close>

definition fadd :: "real \<Rightarrow> real \<Rightarrow> real" where
  "fadd x y = round_double (x + y)"

definition fsub :: "real \<Rightarrow> real \<Rightarrow> real" where
  "fsub x y = round_double (x - y)"

definition fmul :: "real \<Rightarrow> real \<Rightarrow> real" where
  "fmul x y = round_double (x * y)"

definition fdiv :: "real \<Rightarrow> real \<Rightarrow> real" where
  "fdiv x y = round_double (x / y)"

subsection \<open>Data model\<close>

type_synonym datetime = int

datatype error = ZeroDivisionError

record position =
  p_side :: string
  p_entry_price :: real
  p_size :: real
  p_leverage :: real
  p_entry_time :: datetime
  p_liquidation_price :: real

record trade =
  t_side :: string
  t_entry_price :: real
  t_exit_price :: real
  t_size :: real
  t_leverage :: real
  t_entry_time :: datetime
  t_exit_time :: datetime
  t_pnl :: real
  t_reason :: string

record engine =
  lookback_periods :: int
  min_trend_strength :: real
  leverage :: real
  position_size :: real
  trading_fee :: real
  liquidation_threshold :: real
  price_history :: "(datetime \<times> real) list"
  current_position :: "position option"
  completed_trades :: "trade list"
  balance :: real
  total_fees_paid :: real

text \<open>\<^verbatim>\<open>TrendFollowingStrategy.__init__\<close>: the six configuration arguments, an empty window,
  no position, an empty ledger, balance 1000 and no fees.\<close>

definition init_strategy :: "int \<Rightarrow> real \<Rightarrow> real \<Rightarrow> real \<Rightarrow> real \<Rightarrow> real \<Rightarrow> engine" where
  "init_strategy lb mts lev psize fee thr =
     \<lparr> lookback_periods = lb, min_trend_strength = mts, leverage = lev,
       position_size = psize, trading_fee = fee, liquidation_threshold = thr,
       price_history = [], current_position = None, completed_trades = [],
       balance = 1000, total_fees_paid = 0 \<rparr>"

text \<open>The constructor's default arguments \<^verbatim>\<open>3, 0.0005, 5.0, 100.0, 0.001, 0.8\<close>.\<close>

definition default_strategy :: engine where
  "default_strategy =
     init_strategy 3 (round_double 0.0005) 5 100 (round_double 0.001) (round_double 0.8)"

subsection \<open>Position\<close>

definition calculate_pnl :: "position \<Rightarrow> real \<Rightarrow> real" where
  "calculate_pnl p current_price =
     (if p_side p = ''long''
      then fmul (fmul (fsub current_price (p_entry_price p)) (p_size p)) (p_leverage p)
      else fmul (fmul (fsub (p_entry_price p) current_price) (p_size p)) (p_leverage p))"

definition is_liquidated :: "position \<Rightarrow> real \<Rightarrow> bool" where
  "is_liquidated p current_price =
     (if p_side p = ''long''
      then current_price \<le> p_liquidation_price p
      else current_price \<ge> p_liquidation_price p)"

subsection \<open>Python list slicing\<close>

text \<open>\<^verbatim>\<open>xs[k:]\<close> for an arbitrary integer \<open>k\<close>: a negative start counts from the end and is
  clipped at 0, a non-negative one is clipped at the length. In particular
  \<^verbatim>\<open>xs[-0:]\<close> is the whole list.\<close>

definition slice_from :: "int \<Rightarrow> 'a list \<Rightarrow> 'a list" where
  "slice_from k xs =
     (let n = int (length xs);
          start = (if k < 0 then max (n + k) 0 else min k n)
      in drop (nat start) xs)"

subsection \<open>Strategy engine\<close>

definition add_price :: "datetime \<Rightarrow> real \<Rightarrow> engine \<Rightarrow> engine" where
  "add_price timestamp price s =
     (let h = price_history s @ [(timestamp, price)]
      in s\<lparr>price_history := (if length h > 1000 then slice_from (- 500) h else h)\<rparr>)"

definition recent_prices :: "engine \<Rightarrow> real list" where
  "recent_prices s = map snd (slice_from (- (lookback_periods s + 1)) (price_history s))"

definition higher_highs :: "real \<Rightarrow> real list \<Rightarrow> bool" where
  "higher_highs mts rp =
     list_all (\<lambda>i. rp ! i > fmul (rp ! (i - 1)) (fadd 1 mts)) [1 ..< length rp]"

definition lower_lows :: "real \<Rightarrow> real list \<Rightarrow> bool" where
  "lower_lows mts rp =
     list_all (\<lambda>i. rp ! i < fmul (rp ! (i - 1)) (fsub 1 mts)) [1 ..< length rp]"

definition detect_trend :: "engine \<Rightarrow> string option" where
  "detect_trend s =
     (if int (length (price_history s)) < lookback_periods s + 1 then None
      else let rp = recent_prices s in
        if higher_highs (min_trend_strength s) rp then Some ''bullish''
        else if lower_lows (min_trend_strength s) rp then Some ''bearish''
        else None)"

text \<open>\<^verbatim>\<open>entry_price / self.leverage\<close> raises \<^verbatim>\<open>ZeroDivisionError\<close> when the leverage is 0.\<close>

definition calculate_liquidation_price :: "engine \<Rightarrow> real \<Rightarrow> string \<Rightarrow> error + real" where
  "calculate_liquidation_price s entry_price side =
     (if leverage s = 0 then Inl ZeroDivisionError
      else let liquidation_distance = fmul (fdiv entry_price (leverage s)) (liquidation_threshold s)
           in if side = ''long'' then Inr (fsub entry_price liquidation_distance)
              else Inr (fadd entry_price liquidation_distance))"

definition calculate_trading_fee :: "engine \<Rightarrow> real \<Rightarrow> real" where
  "calculate_trading_fee s notional_value = fmul notional_value (trading_fee s)"

definition open_position :: "string \<Rightarrow> real \<Rightarrow> datetime \<Rightarrow> engine \<Rightarrow> (error + bool) \<times> engine" where
  "open_position side price timestamp s =
     (if current_position s \<noteq> None then (Inr False, s)
      else
        let notional_value = fmul (position_size s) (leverage s);
            fee = calculate_trading_fee s notional_value
        in if balance s < fee then (Inr False, s)
           else
             let s1 = s\<lparr>balance := fsub (balance s) fee\<rparr>;
                 s2 = s1\<lparr>total_fees_paid := fadd (total_fees_paid s1) fee\<rparr>
             in case calculate_liquidation_price s2 price side of
                  Inl e \<Rightarrow> (Inl e, s2)
                | Inr liquidation_price \<Rightarrow>
                    (Inr True,
                     s2\<lparr>current_position := Some
                          \<lparr> p_side = side, p_entry_price = price, p_size = position_size s2,
                            p_leverage = leverage s2, p_entry_time = timestamp,
                            p_liquidation_price = liquidation_price \<rparr>\<rparr>))"

definition close_position :: "real \<Rightarrow> datetime \<Rightarrow> string \<Rightarrow> engine \<Rightarrow> trade option \<times> engine" where
  "close_position price timestamp reason s =
     (case current_position s of
        None \<Rightarrow> (None, s)
      | Some p \<Rightarrow>
          let pnl = calculate_pnl p price;
              notional_value = fmul (p_size p) (leverage s);
              fee = calculate_trading_fee s notional_value;
              s1 = s\<lparr>balance := fsub (balance s) fee\<rparr>;
              s2 = s1\<lparr>total_fees_paid := fadd (total_fees_paid s1) fee\<rparr>;
              net_pnl = fsub pnl fee;
              s3 = s2\<lparr>balance := fadd (balance s2) net_pnl\<rparr>;
              tr = \<lparr> t_side = p_side p, t_entry_price = p_entry_price p, t_exit_price = price,
                     t_size = p_size p, t_leverage = p_leverage p,
                     t_entry_time = p_entry_time p, t_exit_time = timestamp,
                     t_pnl = net_pnl, t_reason = reason \<rparr>;
              s4 = s3\<lparr>completed_trades := completed_trades s3 @ [tr]\<rparr>
          in (Some tr, s4\<lparr>current_position := None\<rparr>))"

definition check_liquidation :: "real \<Rightarrow> datetime \<Rightarrow> engine \<Rightarrow> trade option \<times> engine" where
  "check_liquidation price timestamp s =
     (case current_position s of
        None \<Rightarrow> (None, s)
      | Some p \<Rightarrow>
          if is_liquidated p price then close_position price timestamp ''liquidation'' s
          else (None, s))"

text \<open>A \<^verbatim>\<open>Trade\<close> object is always truthy, so \<^verbatim>\<open>if self.check_liquidation(...)\<close> tests
  for \<^verbatim>\<open>None\<close>.\<close>

definition process_price_update ::
  "datetime \<Rightarrow> real \<Rightarrow> engine \<Rightarrow> (error + string option) \<times> engine" where
  "process_price_update timestamp price s =
     (let s1 = add_price timestamp price s in
      case check_liquidation price timestamp s1 of
        (Some tr, s2) \<Rightarrow> (Inr (Some ''liquidated''), s2)
      | (None, s2) \<Rightarrow>
          let trend = detect_trend s2 in
          (case current_position s2 of
             None \<Rightarrow>
               if trend = Some ''bullish'' then
                 (case open_position ''long'' price timestamp s2 of
                    (Inl e, s3) \<Rightarrow> (Inl e, s3)
                  | (Inr ok, s3) \<Rightarrow> if ok then (Inr (Some ''opened_long''), s3) else (Inr None, s3))
               else if trend = Some ''bearish'' then
                 (case open_position ''short'' price timestamp s2 of
                    (Inl e, s3) \<Rightarrow> (Inl e, s3)
                  | (Inr ok, s3) \<Rightarrow> if ok then (Inr (Some ''opened_short''), s3) else (Inr None, s3))
               else (Inr None, s2)
           | Some p \<Rightarrow>
               let current_side = p_side p in
               if (current_side = ''long'' \<and> trend = Some ''bearish'') \<or>
                  (current_side = ''short'' \<and> trend = Some ''bullish'')
               then (Inr (Some ''closed_position''), snd (close_position price timestamp ''trend_reversal'' s2))
               else (Inr None, s2)))"

definition get_current_pnl :: "engine \<Rightarrow> real \<Rightarrow> real" where
  "get_current_pnl s current_price =
     (case current_position s of None \<Rightarrow> 0 | Some p \<Rightarrow> calculate_pnl p current_price)"

subsection \<open>Statistics\<close>







subsection \<open>Bot coordinator\<close>

text \<open>An entry of \<^verbatim>\<open>trade_log\<close>. The four optional keys (position side, size, leverage and
  unrealized PnL) are present together or not at all. The key \<^verbatim>\<open>datetime_str\<close> is the
  timestamp formatted, and is left out.\<close>

record log_entry =
  le_timestamp :: datetime
  le_action :: string
  le_price :: real
  le_position :: "(string \<times> real \<times> real \<times> real) option"

text \<open>The fields of \<^verbatim>\<open>TradingBot\<close> that the operations below read or write.\<close>

record bot =
  strategy :: engine
  last_price :: "real option"
  last_update :: "datetime option"
  trade_log :: "log_entry list"

definition log_trading_action :: "string \<Rightarrow> real \<Rightarrow> datetime \<Rightarrow> bot \<Rightarrow> bot" where
  "log_trading_action action price timestamp b =
     (let entry = \<lparr> le_timestamp = timestamp, le_action = action, le_price = price,
                    le_position =
                      (case current_position (strategy b) of
                         None \<Rightarrow> None
                       | Some p \<Rightarrow> Some (p_side p, p_size p, p_leverage p,
                                         get_current_pnl (strategy b) price)) \<rparr>;
          l = trade_log b @ [entry]
      in b\<lparr>trade_log := (if length l > 100 then slice_from (- 50) l else l)\<rparr>)"

text \<open>\<^verbatim>\<open>manual_close_position\<close>. The test \<^verbatim>\<open>not self.last_price\<close> is Python truthiness:
  it holds for \<^verbatim>\<open>None\<close> and for \<^verbatim>\<open>0.0\<close>. The two time arguments are the two readings
  of \<^verbatim>\<open>datetime.now()\<close>.\<close>

definition manual_close_position :: "datetime \<Rightarrow> datetime \<Rightarrow> bot \<Rightarrow> trade option \<times> bot" where
  "manual_close_position now1 now2 b =
     (if current_position (strategy b) = None then (None, b)
      else case last_price b of
        None \<Rightarrow> (None, b)
      | Some lp \<Rightarrow>
          if lp = 0 then (None, b)
          else
            (case close_position lp now1 ''manual'' (strategy b) of
               (Some t, s') \<Rightarrow> (Some t, log_trading_action ''manual_close'' lp now2 (b\<lparr>strategy := s'\<rparr>))
             | (None, s') \<Rightarrow> (None, b\<lparr>strategy := s'\<rparr>)))"

definition update_strategy_params ::
  "real option \<Rightarrow> real option \<Rightarrow> int option \<Rightarrow> real option \<Rightarrow> bot \<Rightarrow> bot" where
  "update_strategy_params lev psize lb mts b =
     (let s0 = strategy b;
          s1 = (case lev of None \<Rightarrow> s0 | Some v \<Rightarrow> s0\<lparr>leverage := v\<rparr>);
          s2 = (case psize of None \<Rightarrow> s1 | Some v \<Rightarrow> s1\<lparr>position_size := v\<rparr>);
          s3 = (case lb of None \<Rightarrow> s2 | Some v \<Rightarrow> s2\<lparr>lookback_periods := v\<rparr>);
          s4 = (case mts of None \<Rightarrow> s3 | Some v \<Rightarrow> s3\<lparr>min_trend_strength := v\<rparr>)
      in b\<lparr>strategy := s4\<rparr>)"

definition reset_strategy :: "datetime \<Rightarrow> datetime \<Rightarrow> bot \<Rightarrow> bot" where
  "reset_strategy now1 now2 b =
     (let b1 = (if current_position (strategy b) \<noteq> None
                then snd (manual_close_position now1 now2 b) else b);
          s1 = (strategy b1)\<lparr>completed_trades := []\<rparr>;
          s2 = s1\<lparr>balance := 1000\<rparr>;
          s3 = s2\<lparr>total_fees_paid := 0\<rparr>
      in b1\<lparr>strategy := s3, trade_log := []\<rparr>)"

text \<open>\<^verbatim>\<open>_fetch_and_process_price\<close> once the feed has answered: \<open>None\<close> is a failed fetch.
  The bot's own price-history buffer and error counter are not modelled. When the engine
  raises, the exception leaves the method before the last price is updated.\<close>

definition fetch_and_process_price :: "real option \<Rightarrow> datetime \<Rightarrow> bot \<Rightarrow> bot" where
  "fetch_and_process_price fetched timestamp b =
     (case fetched of
        None \<Rightarrow> b
      | Some price \<Rightarrow>
          (case process_price_update timestamp price (strategy b) of
             (Inl e, s') \<Rightarrow> b\<lparr>strategy := s'\<rparr>
           | (Inr action, s') \<Rightarrow>
               let b1 = b\<lparr>strategy := s'\<rparr>;
                   b2 = (case action of None \<Rightarrow> b1
                         | Some a \<Rightarrow> log_trading_action a price timestamp b1)
               in b2\<lparr>last_price := Some price, last_update := Some timestamp\<rparr>))"


text \<open>\<^verbatim>\<open>TradingBot.__init__\<close>: the engine is built from the four arguments the bot passes
  on (the trend strength and the liquidation threshold keep the engine's defaults); no
  price has been seen and the activity log is empty.\<close>

definition init_bot :: "int \<Rightarrow> real \<Rightarrow> real \<Rightarrow> real \<Rightarrow> bot" where
  "init_bot lb lev psize fee =
     \<lparr> strategy = init_strategy lb (round_double 0.0005) lev psize fee (round_double 0.8),
       last_price = None, last_update = None, trade_log = [] \<rparr>"

definition default_bot :: bot where
  "default_bot = init_bot 3 5 100 (round_double 0.001)"

subsection \<open>Auxiliary definitions for the statements\<close>

text \<open>The fee formula \<open>size \<times> leverage \<times> trading_fee\<close> as the engine evaluates it, for the
  entry (the configured size) and for the exit (the position's size); the leverage is the
  engine's current one in both.\<close>

definition entry_fee :: "engine \<Rightarrow> real" where
  "entry_fee s = fmul (fmul (position_size s) (leverage s)) (trading_fee s)"

definition exit_fee :: "engine \<Rightarrow> position \<Rightarrow> real" where
  "exit_fee s p = fmul (fmul (p_size p) (leverage s)) (trading_fee s)"

text \<open>The position that a successful open installs.\<close>

definition opened_position :: "engine \<Rightarrow> string \<Rightarrow> real \<Rightarrow> datetime \<Rightarrow> position" where
  "opened_position s side price ts =
     \<lparr> p_side = side, p_entry_price = price, p_size = position_size s,
       p_leverage = leverage s, p_entry_time = ts,
       p_liquidation_price =
         (if side = ''long''
          then fsub price (fmul (fdiv price (leverage s)) (liquidation_threshold s))
          else fadd price (fmul (fdiv price (leverage s)) (liquidation_threshold s))) \<rparr>"

text \<open>The trade that closing position \<open>p\<close> at \<open>price\<close> records: the gross PnL uses the
  position's own leverage, the fee uses the engine's leverage at the time of the close.\<close>

definition closing_trade :: "engine \<Rightarrow> position \<Rightarrow> real \<Rightarrow> datetime \<Rightarrow> string \<Rightarrow> trade" where
  "closing_trade s p price ts reason =
     \<lparr> t_side = p_side p, t_entry_price = p_entry_price p, t_exit_price = price,
       t_size = p_size p, t_leverage = p_leverage p,
       t_entry_time = p_entry_time p, t_exit_time = ts,
       t_pnl = fsub (calculate_pnl p price) (exit_fee s p),
       t_reason = reason \<rparr>"

text \<open>The trend conditions in the spec's words, to compare \<open>detect_trend\<close> with: the most
  recent \<open>lookback_periods + 1\<close> prices in chronological order, and the two conditions on
  every consecutive pair of them, the product and the sum being those of the doubles.\<close>

definition most_recent_prices :: "engine \<Rightarrow> real list" where
  "most_recent_prices s = map snd (drop (length (price_history s) - nat (lookback_periods s + 1)) (price_history s))"

definition every_pair_rises :: "real \<Rightarrow> real list \<Rightarrow> bool" where
  "every_pair_rises mts w \<longleftrightarrow> (\<forall>i. 0 < i \<and> i < length w \<longrightarrow> w ! i > fmul (w ! (i - 1)) (fadd 1 mts))"

definition every_pair_falls :: "real \<Rightarrow> real list \<Rightarrow> bool" where
  "every_pair_falls mts w \<longleftrightarrow> (\<forall>i. 0 < i \<and> i < length w \<longrightarrow> w ! i < fmul (w ! (i - 1)) (fsub 1 mts))"

text \<open>A caller's operations on the engine, for statements about sequences of calls. The
  results are dropped and the engine a call leaves behind is kept, also when the call
  raised: the object outlives the exception.\<close>

datatype engine_op =
    Tick datetime real
  | Open string real datetime
  | Close real datetime string
  | CheckLiquidation real datetime

fun apply_engine_op :: "engine_op \<Rightarrow> engine \<Rightarrow> engine" where
  "apply_engine_op (Tick ts price) s = snd (process_price_update ts price s)"
| "apply_engine_op (Open side price ts) s = snd (open_position side price ts s)"
| "apply_engine_op (Close price ts reason) s = snd (close_position price ts reason s)"
| "apply_engine_op (CheckLiquidation price ts) s = snd (check_liquidation price ts s)"

fun run_ops :: "engine_op list \<Rightarrow> engine \<Rightarrow> engine" where
  "run_ops [] s = s"
| "run_ops (x # xs) s = run_ops xs (apply_engine_op x s)"

text \<open>The amount by which the balance exceeds what the balance equation gives: the initial
  balance, minus the fees paid, plus the net PnL of the ledger.\<close>

definition balance_excess :: "engine \<Rightarrow> real" where
  "balance_excess s =
     balance s - (1000 - total_fees_paid s + sum_list (map t_pnl (completed_trades s)))"

text \<open>What rounding adds to an exact result, and the rounding that an open and a close put
  into balance and cumulative fees: an open subtracts the fee from the balance and adds it
  to the fees; a close does the same and then adds the net PnL to the balance.\<close>

definition rounding_error :: "real \<Rightarrow> real" where
  "rounding_error x = round_double x - x"

definition open_rounding :: "engine \<Rightarrow> real" where
  "open_rounding s =
     rounding_error (balance s - entry_fee s) + rounding_error (total_fees_paid s + entry_fee s)"

definition close_rounding :: "engine \<Rightarrow> position \<Rightarrow> real \<Rightarrow> real" where
  "close_rounding s p price =
     rounding_error (balance s - exit_fee s p)
     + rounding_error (total_fees_paid s + exit_fee s p)
     + rounding_error (fsub (balance s) (exit_fee s p) + fsub (calculate_pnl p price) (exit_fee s p))"

text \<open>The price an operation carries, and whether it gets as far as charging an entry fee:
  a direct open always tries, a tick tries when it sees a trend; the attempt charges the fee
  when no position is open and the balance covers the fee.\<close>

fun op_price :: "engine_op \<Rightarrow> real" where
  "op_price (Tick ts price) = price"
| "op_price (Open side price ts) = price"
| "op_price (Close price ts reason) = price"
| "op_price (CheckLiquidation price ts) = price"

fun tries_open :: "engine_op \<Rightarrow> engine \<Rightarrow> bool" where
  "tries_open (Tick ts price) s \<longleftrightarrow> detect_trend (add_price ts price s) \<noteq> None"
| "tries_open (Open side price ts) s \<longleftrightarrow> True"
| "tries_open (Close price ts reason) s \<longleftrightarrow> False"
| "tries_open (CheckLiquidation price ts) s \<longleftrightarrow> False"

text \<open>The rounding of one operation: that of a close when it closes the open position, that
  of an open when it charges an entry fee, and none otherwise. The rounding of a run is the
  sum over its operations.\<close>

definition op_rounding :: "engine_op \<Rightarrow> engine \<Rightarrow> real" where
  "op_rounding x s =
     (case current_position s of
        Some p \<Rightarrow>
          if current_position (apply_engine_op x s) = None
          then close_rounding s p (op_price x) else 0
      | None \<Rightarrow>
          if tries_open x s \<and> \<not> balance s < entry_fee s then open_rounding s else 0)"

fun run_rounding :: "engine_op list \<Rightarrow> engine \<Rightarrow> real" where
  "run_rounding [] s = 0"
| "run_rounding (x # xs) s = op_rounding x s + run_rounding xs (apply_engine_op x s)"



subsection \<open>Example inputs\<close>


text \<open>A run of successful fetches through \<open>fetch_and_process_price\<close>.\<close>

fun feed :: "(real \<times> datetime) list \<Rightarrow> bot \<Rightarrow> bot" where
  "feed [] b = b"
| "feed ((price, ts) # rest) b = feed rest (fetch_and_process_price (Some price) ts b)"

text \<open>The default bot after the feed has delivered the prices 3, 2, 1, 0.5 and 0 (all of
  them doubles).\<close>

definition zero_price_bot :: bot where
  "zero_price_bot = feed [(3, 1), (2, 2), (1, 3), (0.5, 4), (0, 5)] default_bot"

text \<open>A bot whose engine charges no fee, has opened a long position at 100 with leverage 5,
  and whose leverage was then set to 10.\<close>

definition zero_fee_releveraged :: bot where
  "zero_fee_releveraged =
     update_strategy_params (Some 10) None None None
       \<lparr> strategy = snd (open_position ''long'' 100 0 (default_strategy\<lparr>trading_fee := 0\<rparr>)),
         last_price = Some 100, last_update = Some 0, trade_log = [] \<rparr>"

text \<open>A bot whose engine has opened a long position of size 130 at 100 with leverage 15.5,
  and whose leverage was then set to the next double above 15.5.\<close>

definition absorbed_releveraged :: bot where
  "absorbed_releveraged =
     update_strategy_params (Some (15.5 + 1 / 2 ^ 49)) None None None
       \<lparr> strategy = snd (open_position ''long'' 100 0
                          (default_strategy\<lparr>position_size := 130, leverage := 15.5\<rparr>)),
         last_price = Some 100, last_update = Some 0, trade_log = [] \<rparr>"

section \<open>Verified properties\<close>

subsection \<open>Rounding\<close>

text \<open>Rounding to the nearest double keeps 0 and the sign, commutes with negation and is
  monotone.\<close>

lemma round_even_of_int [simp]: "round_even (of_int n) = n"
  by (simp add: round_even_def)

lemma round_even_mono: "x \<le> y \<Longrightarrow> round_even x \<le> round_even y"
proof -
  assume xy: "x \<le> y"
  have fl: "\<lfloor>x\<rfloor> \<le> \<lfloor>y\<rfloor>" using xy by (rule floor_mono)
  have up: "round_even x \<le> \<lfloor>x\<rfloor> + 1" and lo: "\<lfloor>y\<rfloor> \<le> round_even y"
    by (simp_all add: round_even_def Let_def)
  show ?thesis
  proof (cases "\<lfloor>x\<rfloor> = \<lfloor>y\<rfloor>")
    case True
    with xy show ?thesis by (auto simp: round_even_def Let_def)
  next
    case False
    with fl have "\<lfloor>x\<rfloor> + 1 \<le> \<lfloor>y\<rfloor>" by simp
    with up lo show ?thesis by linarith
  qed
qed

lemma round_even_le: "x \<le> of_int n \<Longrightarrow> round_even x \<le> n"
  using round_even_mono [of x "of_int n"] by simp

lemma round_even_ge: "of_int n \<le> x \<Longrightarrow> n \<le> round_even x"
  using round_even_mono [of "of_int n" x] by simp

lemma round_even_minus: "round_even (- x) = - round_even x"
proof (cases "x = of_int \<lfloor>x\<rfloor>")
  case True
  then obtain n where "x = of_int n" ..
  then have "- x = of_int (- n)" by simp
  then show ?thesis using \<open>x = of_int n\<close> by (simp only: round_even_of_int)
next
  case False
  then have f: "\<lfloor>- x\<rfloor> = - \<lfloor>x\<rfloor> - 1"
    by (simp add: floor_minus ceiling_altdef)
  show ?thesis
    using False by (auto simp: round_even_def Let_def f)
qed

lemma binade_bounds:
  assumes "x \<noteq> 0"
  shows "2 powi binade x \<le> \<bar>x\<bar>" and "\<bar>x\<bar> < 2 powi (binade x + 1)"
proof -
  have "2 powi binade x \<le> \<bar>x\<bar> \<and> \<bar>x\<bar> < 2 powi (binade x + 1)"
  proof (cases "1 \<le> \<bar>x\<bar>")
    case True
    define n where "n = \<lfloor>\<bar>x\<bar>\<rfloor>"
    have n: "0 < n" "of_int n \<le> \<bar>x\<bar>" "\<bar>x\<bar> < of_int n + 1"
      using True by (simp_all add: n_def)
    have b: "1 \<le> bitlen n" using n(1) by (auto simp: bitlen_alt_def)
    from bitlen_bounds [OF n(1)]
    have "(2::int) ^ nat (bitlen n - 1) \<le> n" "n + 1 \<le> 2 ^ nat (bitlen n)" by simp_all
    then have "real_of_int (2 ^ nat (bitlen n - 1)) \<le> of_int n"
      "real_of_int (n + 1) \<le> of_int (2 ^ nat (bitlen n))"
      by (simp_all only: of_int_le_iff)
    then have "(2::real) ^ nat (bitlen n - 1) \<le> of_int n" "of_int n + 1 \<le> (2::real) ^ nat (bitlen n)"
      by simp_all
    with n have r: "(2::real) ^ nat (bitlen n - 1) \<le> \<bar>x\<bar>" "\<bar>x\<bar> < (2::real) ^ nat (bitlen n)"
      by linarith+
    have e: "binade x = bitlen n - 1" using True by (simp add: binade_def n_def)
    have p: "(2::real) powi (bitlen n - 1) = 2 ^ nat (bitlen n - 1)" "(2::real) powi (bitlen n - 1 + 1) = 2 ^ nat (bitlen n)"
      using b by (simp_all add: power_int_nonneg_exp)
    show ?thesis unfolding e p using r by simp
  next
    case False
    define y where "y = 1 / \<bar>x\<bar>"
    define c where "c = \<lceil>y\<rceil> - 1"
    have y: "1 < y" using False assms by (simp add: y_def)
    then have c: "0 < c" "of_int c < y" "y \<le> of_int c + 1"
      by (simp_all add: c_def less_ceiling_iff) linarith+
    have b: "1 \<le> bitlen c" using c(1) by (auto simp: bitlen_alt_def)
    from bitlen_bounds [OF c(1)]
    have "(2::int) ^ nat (bitlen c - 1) \<le> c" "c + 1 \<le> 2 ^ nat (bitlen c)" by simp_all
    then have "real_of_int (2 ^ nat (bitlen c - 1)) \<le> of_int c"
      "real_of_int (c + 1) \<le> of_int (2 ^ nat (bitlen c))"
      by (simp_all only: of_int_le_iff)
    then have "(2::real) ^ nat (bitlen c - 1) \<le> of_int c" "of_int c + 1 \<le> (2::real) ^ nat (bitlen c)"
      by simp_all
    with c have yb: "(2::real) ^ nat (bitlen c - 1) < y" "y \<le> 2 ^ nat (bitlen c)" by linarith+
    have e: "binade x = - bitlen c" using False by (simp add: binade_def c_def y_def)
    have x: "\<bar>x\<bar> = 1 / y" using assms by (simp add: y_def)
    have 1: "2 powi (- bitlen c) \<le> \<bar>x\<bar>"
      using yb(2) y b unfolding x
      by (simp add: power_int_minus_divide power_int_nonneg_exp frac_le)
    have "(2::real) powi (- bitlen c + 1) = 2 powi (- (bitlen c - 1))" by simp
    also have "\<dots> = 1 / 2 powi (bitlen c - 1)" by (simp only: power_int_minus_divide)
    also have "\<dots> = 1 / (2::real) ^ nat (bitlen c - 1)"
      using b by (simp add: power_int_nonneg_exp)
    finally have "2 powi (- bitlen c + 1) = 1 / (2::real) ^ nat (bitlen c - 1)" .
    moreover have "1 / y < 1 / (2::real) ^ nat (bitlen c - 1)"
      using yb(1) by (simp add: frac_less2)
    ultimately have 2: "\<bar>x\<bar> < 2 powi (- bitlen c + 1)" unfolding x by simp
    from 1 2 e show ?thesis by simp
  qed
  then show "2 powi binade x \<le> \<bar>x\<bar>" and "\<bar>x\<bar> < 2 powi (binade x + 1)" by simp_all
qed


lemma binade_minus [simp]: "binade (- x) = binade x"
  by (simp add: binade_def)

lemma round_double_minus: "round_double (- x) = - round_double x"
  by (simp add: round_double_def Let_def round_even_minus)

lemma round_double_nonneg: "0 \<le> x \<Longrightarrow> 0 \<le> round_double x"
  using round_even_ge [of 0]
  by (simp add: round_double_def Let_def)

lemma two_powi_le: "m \<le> n \<Longrightarrow> (2::real) powi m \<le> 2 powi n"
  by (rule power_int_increasing) simp_all

lemma two_powi_less_imp: "(2::real) powi m < 2 powi n \<Longrightarrow> m < n"
  using two_powi_le [of n m] by (cases "m < n") simp_all

lemma binade_mono:
  assumes "0 < x" "x \<le> y"
  shows "binade x \<le> binade y"
proof -
  have "2 powi binade x \<le> x" using binade_bounds(1) [of x] assms by simp
  also have "x \<le> y" by fact
  also have "y < 2 powi (binade y + 1)" using binade_bounds(2) [of y] assms by simp
  finally have "(2::real) powi binade x < 2 powi (binade y + 1)" .
  then have "binade x < binade y + 1"
    by (rule two_powi_less_imp)
  then show ?thesis by simp
qed

lemma round_double_mono_pos:
  assumes "0 < x" "x \<le> y"
  shows "round_double x \<le> round_double y"
proof -
  define ex where "ex = max (binade x) (- 1022)"
  define ey where "ey = max (binade y) (- 1022)"
  have rx: "round_double x = of_int (round_even (x / 2 powi (ex - 52))) * 2 powi (ex - 52)"
    and ry: "round_double y = of_int (round_even (y / 2 powi (ey - 52))) * 2 powi (ey - 52)"
    using assms by (simp_all add: round_double_def Let_def ex_def ey_def)
  have p: "\<And>k. 0 < (2::real) powi k" by simp
  have le: "ex \<le> ey" using binade_mono [OF assms] by (simp add: ex_def ey_def)
  show ?thesis
  proof (cases "ex = ey")
    case True
    have "x / 2 powi (ey - 52) \<le> y / 2 powi (ey - 52)"
      using assms p by (simp add: divide_right_mono)
    then have "round_even (x / 2 powi (ey - 52)) \<le> round_even (y / 2 powi (ey - 52))"
      by (rule round_even_mono)
    then show ?thesis unfolding rx ry True using p
      by (simp add: mult_right_mono)
  next
    case False
    with le have lt: "ex < ey" by simp
    then have eyb: "ey = binade y" by (auto simp: ex_def ey_def)
    have "x < 2 powi (binade x + 1)" using binade_bounds(2) [of x] assms by simp
    also have "\<dots> \<le> 2 powi (ex + 1)" by (rule two_powi_le) (simp add: ex_def)
    finally have "x < 2 powi (ex + 1)" .
    then have "x / 2 powi (ex - 52) < 2 powi (ex + 1) / 2 powi (ex - 52)"
      using p by (simp add: divide_strict_right_mono)
    also have "(2::real) powi (ex + 1) / 2 powi (ex - 52) = 2 powi 53"
      by (simp add: power_int_diff [symmetric])
    finally have "x / 2 powi (ex - 52) \<le> of_int (2 ^ 53)" by simp
    then have "round_even (x / 2 powi (ex - 52)) \<le> 2 ^ 53" by (rule round_even_le)
    then have "real_of_int (round_even (x / 2 powi (ex - 52))) \<le> 2 ^ 53"
      by (metis of_int_le_iff of_int_numeral of_int_power)
    then have "round_double x \<le> 2 ^ 53 * 2 powi (ex - 52)"
      unfolding rx using p by (simp add: mult_right_mono)
    also have "(2::real) ^ 53 * 2 powi (ex - 52) = 2 powi (ex + 1)"
      using power_int_add [of "2::real" 53 "ex - 52"] by (simp add: add.commute)
    also have "\<dots> \<le> 2 powi ey" using lt by (intro two_powi_le) simp
    finally have 1: "round_double x \<le> 2 powi ey" .
    have "2 powi ey \<le> y" using binade_bounds(1) [of y] assms eyb by simp
    then have "2 powi ey / 2 powi (ey - 52) \<le> y / 2 powi (ey - 52)"
      using p by (simp add: divide_right_mono)
    moreover have "(2::real) powi ey / 2 powi (ey - 52) = 2 powi 52"
      by (simp add: power_int_diff [symmetric])
    ultimately have "of_int (2 ^ 52) \<le> y / 2 powi (ey - 52)" by simp
    then have "2 ^ 52 \<le> round_even (y / 2 powi (ey - 52))" by (rule round_even_ge)
    then have "(2::real) ^ 52 \<le> real_of_int (round_even (y / 2 powi (ey - 52)))"
      by (metis of_int_le_iff of_int_numeral of_int_power)
    then have "2 ^ 52 * 2 powi (ey - 52) \<le> round_double y"
      unfolding ry using p by (simp add: mult_right_mono)
    moreover have "(2::real) ^ 52 * 2 powi (ey - 52) = 2 powi ey"
      using power_int_add [of "2::real" 52 "ey - 52"] by simp
    ultimately have 2: "2 powi ey \<le> round_double y" by simp
    from 1 2 show ?thesis by simp
  qed
qed

lemma round_double_zero [simp]: "round_double 0 = 0"
  by (simp add: round_double_def)

lemma round_double_mono:
  assumes "x \<le> y"
  shows "round_double x \<le> round_double y"
proof -
  consider "0 < x" | "x \<le> 0" "0 \<le> y" | "y < 0" by linarith
  then show ?thesis
  proof cases
    case 1
    from 1 assms show ?thesis by (rule round_double_mono_pos)
  next
    case 2
    have "round_double x \<le> 0"
      using round_double_nonneg [of "- x"] 2(1) by (simp add: round_double_minus)
    moreover have "0 \<le> round_double y" using 2(2) by (rule round_double_nonneg)
    ultimately show ?thesis by simp
  next
    case 3
    have "round_double (- y) \<le> round_double (- x)"
      using 3 assms by (intro round_double_mono_pos) simp_all
    then show ?thesis by (simp add: round_double_minus)
  qed
qed

lemma rounding_error_add: "round_double x = x + rounding_error x"
  by (simp add: rounding_error_def)

text \<open>Evaluating \<open>round_double\<close> on a given number: the exponent is whatever \<open>e\<close> brackets
  the number between two powers of 2, and the rest is integer arithmetic.\<close>

lemma binade_unique:
  assumes "2 powi e \<le> \<bar>x\<bar>" "\<bar>x\<bar> < 2 powi (e + 1)"
  shows "binade x = e"
proof -
  have nz: "x \<noteq> 0"
  proof
    assume "x = 0"
    with assms(1) have "(2::real) powi e \<le> 0" by simp
    moreover have "0 < (2::real) powi e" by (rule zero_less_power_int) simp
    ultimately show False by linarith
  qed
  have "(2::real) powi e < 2 powi (binade x + 1)"
    using assms(1) binade_bounds(2) [OF nz] by simp
  then have 1: "e < binade x + 1" by (rule two_powi_less_imp)
  have "(2::real) powi binade x < 2 powi (e + 1)"
    using assms(2) binade_bounds(1) [OF nz] by simp
  then have 2: "binade x < e + 1" by (rule two_powi_less_imp)
  from 1 2 show ?thesis by simp
qed

lemma round_double_at:
  assumes "2 powi e \<le> \<bar>x\<bar>" "\<bar>x\<bar> < 2 powi (e + 1)"
  shows "round_double x =
           of_int (round_even (x / 2 powi (max e (- 1022) - 52))) * 2 powi (max e (- 1022) - 52)"
proof -
  have nz: "x \<noteq> 0"
  proof
    assume "x = 0"
    with assms(1) have "(2::real) powi e \<le> 0" by simp
    moreover have "0 < (2::real) powi e" by (rule zero_less_power_int) simp
    ultimately show False by linarith
  qed
  show ?thesis using nz by (simp add: round_double_def Let_def binade_unique [OF assms])
qed

text \<open>The same for the exponents from \<open>-12\<close> to \<open>13\<close>, enough for the examples below.\<close>

lemmas rd_at =
  round_double_at [where e = "- 12"] round_double_at [where e = "- 11"] round_double_at [where e = "- 10"]
  round_double_at [where e = "- 9"] round_double_at [where e = "- 8"] round_double_at [where e = "- 7"]
  round_double_at [where e = "- 6"] round_double_at [where e = "- 5"] round_double_at [where e = "- 4"]
  round_double_at [where e = "- 3"] round_double_at [where e = "- 2"] round_double_at [where e = "- 1"]
  round_double_at [where e = "0"] round_double_at [where e = "1"] round_double_at [where e = "2"]
  round_double_at [where e = "3"] round_double_at [where e = "4"] round_double_at [where e = "5"]
  round_double_at [where e = "6"] round_double_at [where e = "7"] round_double_at [where e = "8"]
  round_double_at [where e = "9"] round_double_at [where e = "10"] round_double_at [where e = "11"]
  round_double_at [where e = "12"] round_double_at [where e = "13"]
  round_even_def fadd_def fsub_def fmul_def fdiv_def


subsection \<open>The mutators, case by case\<close>

text \<open>\<open>open_position\<close> has four outcomes: refused because a position is open, refused for
  lack of balance, \<^verbatim>\<open>ZeroDivisionError\<close> (the fee is then 0, and the two assignments made
  before the division have subtracted 0 from the balance and added 0 to the fees), and
  success.\<close>

lemma entry_fee_zero_leverage: "leverage s = 0 \<Longrightarrow> entry_fee s = 0"
  by (simp add: entry_fee_def fmul_def)

lemma open_position_cases:
  "open_position side price ts s =
     (if current_position s \<noteq> None then (Inr False, s)
      else if balance s < entry_fee s then (Inr False, s)
      else if leverage s = 0
      then (Inl ZeroDivisionError,
            s\<lparr> balance := round_double (balance s),
               total_fees_paid := round_double (total_fees_paid s) \<rparr>)
      else (Inr True,
            s\<lparr> balance := fsub (balance s) (entry_fee s),
               total_fees_paid := fadd (total_fees_paid s) (entry_fee s),
               current_position := Some (opened_position s side price ts) \<rparr>))"
  by (simp add: open_position_def calculate_trading_fee_def calculate_liquidation_price_def
        Let_def entry_fee_def opened_position_def fmul_def fsub_def fadd_def)

lemma open_position_True:
  assumes "open_position side price ts s = (Inr True, s')"
  shows "current_position s = None"
    and "leverage s \<noteq> 0"
    and "entry_fee s \<le> balance s"
    and "s' = s\<lparr> balance := fsub (balance s) (entry_fee s),
                 total_fees_paid := fadd (total_fees_paid s) (entry_fee s),
                 current_position := Some (opened_position s side price ts) \<rparr>"
  using assms by (simp_all add: open_position_cases split: if_splits)

lemma close_position_none:
  "current_position s = None \<Longrightarrow> close_position price ts reason s = (None, s)"
  by (simp add: close_position_def)

lemma close_position_open:
  assumes "current_position s = Some p"
  shows "close_position price ts reason s =
     (Some (closing_trade s p price ts reason),
      s\<lparr> balance := fadd (fsub (balance s) (exit_fee s p))
                          (fsub (calculate_pnl p price) (exit_fee s p)),
         total_fees_paid := fadd (total_fees_paid s) (exit_fee s p),
         completed_trades := completed_trades s @ [closing_trade s p price ts reason],
         current_position := None \<rparr>)"
  using assms
  by (simp add: close_position_def calculate_trading_fee_def closing_trade_def exit_fee_def Let_def)

lemma check_liquidation_cases:
  "check_liquidation price ts s =
     (case current_position s of
        None \<Rightarrow> (None, s)
      | Some p \<Rightarrow>
          if (p_side p = ''long'' \<and> price \<le> p_liquidation_price p) \<or>
             (p_side p \<noteq> ''long'' \<and> p_liquidation_price p \<le> price)
          then close_position price ts ''liquidation'' s else (None, s))"
  by (simp add: check_liquidation_def is_liquidated_def split: option.splits)

lemma update_strategy_params_fields:
  "leverage (strategy (update_strategy_params (Some lev) psz lb mts b)) = lev"
  "trading_fee (strategy (update_strategy_params l psz lb mts b)) = trading_fee (strategy b)"
  "current_position (strategy (update_strategy_params l psz lb mts b)) = current_position (strategy b)"
  "total_fees_paid (strategy (update_strategy_params l psz lb mts b)) = total_fees_paid (strategy b)"
  "balance (strategy (update_strategy_params l psz lb mts b)) = balance (strategy b)"
  "completed_trades (strategy (update_strategy_params l psz lb mts b)) = completed_trades (strategy b)"
  by (simp_all add: update_strategy_params_def Let_def split: option.splits)

lemma add_price_fields:
  "balance (add_price ts price s) = balance s"
  "total_fees_paid (add_price ts price s) = total_fees_paid s"
  "completed_trades (add_price ts price s) = completed_trades s"
  "current_position (add_price ts price s) = current_position s"
  "leverage (add_price ts price s) = leverage s"
  "position_size (add_price ts price s) = position_size s"
  "trading_fee (add_price ts price s) = trading_fee s"
  "liquidation_threshold (add_price ts price s) = liquidation_threshold s"
  by (simp_all add: add_price_def Let_def)

lemma check_liquidation_None:
  "check_liquidation price ts s = (None, s2) \<Longrightarrow> s2 = s"
  by (auto simp: check_liquidation_cases close_position_open split: option.splits if_splits)

lemma check_liquidation_Some:
  "check_liquidation price ts s = (Some tr, s2) \<Longrightarrow>
     current_position s \<noteq> None \<and> current_position s2 = None \<and>
     completed_trades s2 = completed_trades s @ [tr] \<and> t_reason tr = ''liquidation''"
  by (auto simp: check_liquidation_cases close_position_open closing_trade_def
        split: option.splits if_splits)

text \<open>Evaluation of the default engine.\<close>

lemma default_strategy_fields:
  "lookback_periods default_strategy = 3"
  "min_trend_strength default_strategy = round_double 0.0005"
  "leverage default_strategy = 5" "position_size default_strategy = 100"
  "trading_fee default_strategy = round_double 0.001"
  "liquidation_threshold default_strategy = round_double 0.8"
  "price_history default_strategy = []" "current_position default_strategy = None"
  "completed_trades default_strategy = []" "balance default_strategy = 1000"
  "total_fees_paid default_strategy = 0"
  by (simp_all add: default_strategy_def init_strategy_def)


subsection \<open>Evaluating ticks on concrete windows\<close>

lemma add_price_short:
  "length (price_history s) < 1000 \<Longrightarrow>
     add_price ts price s = s\<lparr>price_history := price_history s @ [(ts, price)]\<rparr>"
  by (simp add: add_price_def Let_def)

lemmas tick_eval = process_price_update_def Let_def add_price_short check_liquidation_cases
  close_position_open open_position_cases entry_fee_def exit_fee_def opened_position_def
  closing_trade_def calculate_pnl_def
  detect_trend_def recent_prices_def slice_from_def higher_highs_def lower_lows_def upt_rec
  default_strategy_fields rd_at

subsection \<open>Liquidation check\<close>

text \<open>
  Claim C4. With no position open, \<open>check_liquidation\<close> returns \<^verbatim>\<open>None\<close> and leaves the
  engine as it is. With a position open, it closes the position exactly when the
  liquidation condition holds: price at or below the liquidation price for a long
  position, price at or above it for any other side (the source treats every side that is
  not \<^verbatim>\<open>'long'\<close> as short). The close is the one \<open>close_position\<close> makes with the reason
  \<^verbatim>\<open>'liquidation'\<close>: the trade is returned and appended to the ledger, and no position
  remains. When the condition fails the result is \<^verbatim>\<open>None\<close> and the engine is unchanged.
\<close>

theorem check_liquidation_exact:
  "(current_position s = None \<longrightarrow> check_liquidation price ts s = (None, s)) \<and>
   (\<forall>p. current_position s = Some p \<longrightarrow>
      (if (p_side p = ''long'' \<and> price \<le> p_liquidation_price p) \<or>
          (p_side p \<noteq> ''long'' \<and> price \<ge> p_liquidation_price p)
       then \<exists>tr s'. check_liquidation price ts s = (Some tr, s') \<and>
              (Some tr, s') = close_position price ts ''liquidation'' s \<and>
              t_reason tr = ''liquidation'' \<and> t_exit_price tr = price \<and>
              current_position s' = None \<and>
              completed_trades s' = completed_trades s @ [tr]
       else check_liquidation price ts s = (None, s)))"
  by (auto simp: check_liquidation_cases close_position_open closing_trade_def)

text \<open>The spec's example: a long position opened at 100 on the default engine has the
  liquidation price 84; it is closed at the price 83.99 and kept at 84.01; the fresh engine
  has nothing to liquidate.\<close>

theorem check_liquidation_exact_witness:
  "check_liquidation 50 1 default_strategy = (None, default_strategy) \<and>
   (\<exists>s' p. open_position ''long'' 100 0 default_strategy = (Inr True, s') \<and>
      current_position s' = Some p \<and> p_liquidation_price p = 84 \<and>
      map_option t_reason (fst (check_liquidation (round_double 83.99) 1 s')) = Some ''liquidation'' \<and>
      current_position (snd (check_liquidation (round_double 83.99) 1 s')) = None \<and>
      check_liquidation (round_double 84.01) 1 s' = (None, s'))"
proof -
  define s' where "s' = snd (open_position ''long'' 100 0 default_strategy)"
  define p where "p = opened_position default_strategy ''long'' 100 0"
  define lo where "lo = round_double 83.99"
  define hi where "hi = round_double 84.01"
  have "fst (open_position ''long'' 100 0 default_strategy) = Inr True"
    by (simp add: tick_eval)
  then have o: "open_position ''long'' 100 0 default_strategy = (Inr True, s')"
    by (simp add: s'_def prod_eq_iff)
  have c: "current_position s' = Some p"
    using open_position_True(4) [OF o] by (simp add: p_def)
  have n: "current_position default_strategy = None"
    by (simp add: default_strategy_fields)
  have "p_liquidation_price (opened_position default_strategy ''long'' 100 0) = 84"
    "round_double 83.99 \<le> 84" "\<not> round_double 84.01 \<le> 84"
    by (simp_all add: tick_eval)
  then have lq: "p_liquidation_price p = 84" "lo \<le> 84" "\<not> hi \<le> 84"
    by (simp_all add: p_def lo_def hi_def)
  have sd: "p_side p = ''long''" by (simp add: p_def opened_position_def)
  from check_liquidation_exact [of default_strategy 50 1] n
  have a: "check_liquidation 50 1 default_strategy = (None, default_strategy)"
    by simp
  from check_liquidation_exact [of s' lo 1] c lq sd
  obtain tr s2 where "check_liquidation lo 1 s' = (Some tr, s2)"
     "t_reason tr = ''liquidation''" "current_position s2 = None"
    by auto
  then have b: "map_option t_reason (fst (check_liquidation lo 1 s')) = Some ''liquidation'' \<and>
           current_position (snd (check_liquidation lo 1 s')) = None"
    by simp
  from check_liquidation_exact [of s' hi 1] c lq sd
  have d: "check_liquidation hi 1 s' = (None, s')"
    by simp
  from a b d o c lq show ?thesis unfolding lo_def hi_def by blast
qed

subsection \<open>Trend detection with no lookback\<close>

text \<open>
  Claim C9. With \<open>lookback_periods = 0\<close> and a non-empty price window, \<open>detect_trend\<close>
  returns \<^verbatim>\<open>'bullish'\<close> whatever the prices are: the window is the last price alone, there
  is no consecutive pair, and the bullish test comes first.
\<close>

theorem detect_trend_no_lookback:
  "lookback_periods s = 0 \<Longrightarrow> price_history s \<noteq> [] \<Longrightarrow> detect_trend s = Some ''bullish''"
  by (cases "price_history s" rule: rev_cases)
     (simp_all add: detect_trend_def recent_prices_def slice_from_def higher_highs_def Let_def)

theorem detect_trend_no_lookback_witness:
  "detect_trend (default_strategy\<lparr>lookback_periods := 0, price_history := [(1, 100), (2, 50)]\<rparr>)
     = Some ''bullish''"
  using detect_trend_no_lookback
          [of "default_strategy\<lparr>lookback_periods := 0, price_history := [(1, 100), (2, 50)]\<rparr>"]
  by simp




subsection \<open>One action per tick\<close>

text \<open>
  Claim C6. A tick \<open>process_price_update ts price\<close> has one of six outcomes and does at most
  one thing to the position:
  \<^item> it returns \<^verbatim>\<open>'liquidated'\<close> exactly when the liquidation check on the engine with the
    new price closes the position, and then the engine is left exactly as that close left
    it: no trend or open/close logic follows;
  \<^item> \<^verbatim>\<open>'opened_long'\<close> and \<^verbatim>\<open>'opened_short'\<close> occur only when no position was open; the
    position opened is still open at the end of the tick and the ledger is unchanged, so
    the exit logic did not run on it;
  \<^item> \<^verbatim>\<open>'closed_position'\<close> and \<^verbatim>\<open>'liquidated'\<close> occur only when a position was open; no
    position is open afterwards (none was opened in the same tick) and the ledger has
    grown by exactly one trade, with the matching reason;
  \<^item> with no action (\<^verbatim>\<open>None\<close>) only the price window has changed; when the open attempt
    raises, the two assignments before the division have subtracted a fee of 0 from the
    balance and added it to the fees, which leaves every balance and fee total that is a
    double as it was, so that again only the price window has changed.
\<close>

theorem one_action_per_tick:
  assumes "process_price_update ts price s = (r, s')"
  shows "(r = Inr (Some ''liquidated'') \<longleftrightarrow>
            fst (check_liquidation price ts (add_price ts price s)) \<noteq> None) \<and>
         (r = Inr (Some ''liquidated'') \<longrightarrow>
            s' = snd (check_liquidation price ts (add_price ts price s))) \<and>
         (r = Inr (Some ''opened_long'') \<or> r = Inr (Some ''opened_short'') \<longrightarrow>
            current_position s = None \<and> current_position s' \<noteq> None \<and>
            completed_trades s' = completed_trades s) \<and>
         (r = Inr (Some ''closed_position'') \<or> r = Inr (Some ''liquidated'') \<longrightarrow>
            current_position s \<noteq> None \<and> current_position s' = None \<and>
            (\<exists>tr. completed_trades s' = completed_trades s @ [tr] \<and>
                  t_reason tr = (if r = Inr (Some ''liquidated'') then ''liquidation''
                                 else ''trend_reversal''))) \<and>
         (r = Inr None \<longrightarrow> s' = add_price ts price s) \<and>
         (r = Inl ZeroDivisionError \<longrightarrow>
            s' = (add_price ts price s)
                   \<lparr> balance := round_double (balance s),
                     total_fees_paid := round_double (total_fees_paid s) \<rparr> \<and>
            (is_double (balance s) \<and> is_double (total_fees_paid s) \<longrightarrow>
               s' = add_price ts price s)) \<and>
         r \<in> {Inr None, Inl ZeroDivisionError, Inr (Some ''liquidated''),
              Inr (Some ''opened_long''), Inr (Some ''opened_short''),
              Inr (Some ''closed_position'')}"
proof -
  let ?s1 = "add_price ts price s"
  have d: "is_double (balance s) \<and> is_double (total_fees_paid s) \<Longrightarrow>
      ?s1\<lparr> balance := round_double (balance s),
           total_fees_paid := round_double (total_fees_paid s) \<rparr> = ?s1"
    by (simp add: is_double_def add_price_def Let_def)
  obtain c s2 where c: "check_liquidation price ts ?s1 = (c, s2)" by force
  show ?thesis
  proof (cases c)
    case (Some tr)
    with c assms have "r = Inr (Some ''liquidated'')" "s' = s2"
      by (simp_all add: process_price_update_def Let_def)
    with check_liquidation_Some [OF c [unfolded Some]] c Some show ?thesis
      by (simp add: add_price_fields)
  next
    case None
    with c have s2: "s2 = ?s1" by (simp add: check_liquidation_None)
    show ?thesis
    proof (cases "current_position s")
      case n: None
      then show ?thesis
        using assms c None s2 d
        by (auto simp: process_price_update_def Let_def add_price_fields open_position_cases
              split: if_splits)
    next
      case (Some p)
      then show ?thesis
        using assms c None s2
        by (auto simp: process_price_update_def Let_def add_price_fields close_position_open
              closing_trade_def split: if_splits)
    qed
  qed
qed

text \<open>Five ticks on the default configuration: a fourth rising price opens a long
  position; a price of 80 liquidates a long position opened at 100; a fourth falling price
  closes a long position; a first price does nothing; with the leverage set to 0 a fourth
  rising price raises.\<close>

theorem one_action_per_tick_witness:
  "fst (process_price_update 4 (round_double 103.9)
          (default_strategy\<lparr>price_history := [(1, 100), (2, round_double 101.2), (3, 102.5)]\<rparr>))
     = Inr (Some ''opened_long'') \<and>
   current_position (snd (process_price_update 4 (round_double 103.9)
          (default_strategy\<lparr>price_history := [(1, 100), (2, round_double 101.2), (3, 102.5)]\<rparr>)))
     \<noteq> None \<and>
   completed_trades (snd (process_price_update 4 (round_double 103.9)
          (default_strategy\<lparr>price_history := [(1, 100), (2, round_double 101.2), (3, 102.5)]\<rparr>)))
     = [] \<and>
   fst (process_price_update 1 80 (snd (open_position ''long'' 100 0 default_strategy)))
     = Inr (Some ''liquidated'') \<and>
   current_position (snd (process_price_update 1 80
          (snd (open_position ''long'' 100 0 default_strategy)))) = None \<and>
   map t_reason (completed_trades (snd (process_price_update 1 80
          (snd (open_position ''long'' 100 0 default_strategy))))) = [''liquidation''] \<and>
   fst (process_price_update 4 96
          (snd (open_position ''long'' 100 0
             (default_strategy\<lparr>price_history := [(1, 100), (2, round_double 98.8), (3, 97.5)]\<rparr>))))
     = Inr (Some ''closed_position'') \<and>
   current_position (snd (process_price_update 4 96
          (snd (open_position ''long'' 100 0
             (default_strategy\<lparr>price_history := [(1, 100), (2, round_double 98.8), (3, 97.5)]\<rparr>)))))
     = None \<and>
   map t_reason (completed_trades (snd (process_price_update 4 96
          (snd (open_position ''long'' 100 0
             (default_strategy\<lparr>price_history := [(1, 100), (2, round_double 98.8), (3, 97.5)]\<rparr>))))))
     = [''trend_reversal''] \<and>
   process_price_update 1 100 default_strategy = (Inr None, add_price 1 100 default_strategy) \<and>
   process_price_update 4 (round_double 103.9)
      (default_strategy\<lparr>leverage := 0,
         price_history := [(1, 100), (2, round_double 101.2), (3, 102.5)]\<rparr>)
     = (Inl ZeroDivisionError,
        add_price 4 (round_double 103.9)
          (default_strategy\<lparr>leverage := 0,
             price_history := [(1, 100), (2, round_double 101.2), (3, 102.5)]\<rparr>))"
proof -
  define a where "a = default_strategy\<lparr>price_history := [(1, 100), (2, round_double 101.2), (3, 102.5)]\<rparr>"
  define b where "b = snd (open_position ''long'' 100 0 default_strategy)"
  define c where "c = snd (open_position ''long'' 100 0
             (default_strategy\<lparr>price_history := [(1, 100), (2, round_double 98.8), (3, 97.5)]\<rparr>))"
  define z where "z = default_strategy\<lparr>leverage := 0,
         price_history := [(1, 100), (2, round_double 101.2), (3, 102.5)]\<rparr>"
  define up where "up = round_double 103.9"
  note defs = a_def b_def c_def z_def up_def
  have "fst (process_price_update 4 (round_double 103.9)
          (default_strategy\<lparr>price_history := [(1, 100), (2, round_double 101.2), (3, 102.5)]\<rparr>))
     = Inr (Some ''opened_long'')"
    by (simp add: tick_eval)
  then have ra: "fst (process_price_update 4 up a) = Inr (Some ''opened_long'')"
    by (simp add: defs)
  have "fst (process_price_update 1 80 (snd (open_position ''long'' 100 0 default_strategy)))
     = Inr (Some ''liquidated'')"
    by (simp add: tick_eval)
  then have rb: "fst (process_price_update 1 80 b) = Inr (Some ''liquidated'')"
    by (simp add: defs)
  have "fst (process_price_update 4 96
          (snd (open_position ''long'' 100 0
             (default_strategy\<lparr>price_history := [(1, 100), (2, round_double 98.8), (3, 97.5)]\<rparr>))))
     = Inr (Some ''closed_position'')"
    by (simp add: tick_eval)
  then have rc: "fst (process_price_update 4 96 c) = Inr (Some ''closed_position'')"
    by (simp add: defs)
  have rd: "fst (process_price_update 1 100 default_strategy) = Inr None"
    by (simp add: tick_eval)
  have "fst (process_price_update 4 (round_double 103.9)
      (default_strategy\<lparr>leverage := 0,
         price_history := [(1, 100), (2, round_double 101.2), (3, 102.5)]\<rparr>))
     = Inl ZeroDivisionError"
    by (simp add: tick_eval)
  then have rz: "fst (process_price_update 4 up z) = Inl ZeroDivisionError"
    by (simp add: defs)
  have "is_double 1000" "is_double 0" by (simp_all add: is_double_def rd_at)
  then have dz: "is_double (balance z)" "is_double (total_fees_paid z)"
    by (simp_all add: z_def default_strategy_fields)
  have "completed_trades (snd (open_position ''long'' 100 0 default_strategy)) = []"
    "completed_trades (snd (open_position ''long'' 100 0
             (default_strategy\<lparr>price_history := [(1, 100), (2, round_double 98.8), (3, 97.5)]\<rparr>))) = []"
    by (simp_all add: tick_eval)
  then have ia: "completed_trades a = []" and ib: "completed_trades b = []"
    and ic: "completed_trades c = []"
    by (simp_all add: defs default_strategy_fields)
  from one_action_per_tick [of 4 up a, OF surjective_pairing] ra ia
  have 1: "current_position (snd (process_price_update 4 up a)) \<noteq> None \<and>
           completed_trades (snd (process_price_update 4 up a)) = []"
    by simp
  from one_action_per_tick [of 1 80 b, OF surjective_pairing] rb ib
  have 2: "current_position (snd (process_price_update 1 80 b)) = None \<and>
           map t_reason (completed_trades (snd (process_price_update 1 80 b))) = [''liquidation'']"
    by auto
  from one_action_per_tick [of 4 96 c, OF surjective_pairing] rc ic
  have 3: "current_position (snd (process_price_update 4 96 c)) = None \<and>
           map t_reason (completed_trades (snd (process_price_update 4 96 c))) = [''trend_reversal'']"
    by auto
  from one_action_per_tick [of 1 100 default_strategy, OF surjective_pairing] rd
  have 4: "process_price_update 1 100 default_strategy = (Inr None, add_price 1 100 default_strategy)"
    by (simp add: prod_eq_iff)
  from one_action_per_tick [of 4 up z, OF surjective_pairing] rz dz
  have 5: "process_price_update 4 up z = (Inl ZeroDivisionError, add_price 4 up z)"
    by (metis prod.collapse)
  from ra rb rc 1 2 3 4 5 show ?thesis unfolding defs by blast
qed





subsection \<open>Opening a position\<close>

text \<open>
  Claim C3, as amended. A successful \<open>open_position side price timestamp\<close> (one that
  returns \<^verbatim>\<open>True\<close>) started with no position open. It computes the entry fee
  \<open>position_size * leverage * trading_fee\<close> in doubles, subtracts it from the balance and
  adds it to the cumulative fees (each result rounded to a double), and installs a
  position with the given side, price and time, the configured size and leverage, and the
  liquidation price \<open>price - price / leverage * liquidation_threshold\<close> for a long position
  and \<open>price + price / leverage * liquidation_threshold\<close> otherwise, again computed in
  doubles. The ledger is untouched. Where the balance is a double, it does not increase
  when the fee is not negative, and it decreases only when the fee is positive; it need
  not decrease.
\<close>

theorem open_position_success:
  assumes "open_position side price ts s = (Inr True, s')"
  shows "balance s' = fsub (balance s) (fmul (fmul (position_size s) (leverage s)) (trading_fee s)) \<and>
         total_fees_paid s' =
           fadd (total_fees_paid s) (fmul (fmul (position_size s) (leverage s)) (trading_fee s)) \<and>
         current_position s = None \<and>
         current_position s' = Some
           \<lparr> p_side = side, p_entry_price = price, p_size = position_size s,
             p_leverage = leverage s, p_entry_time = ts,
             p_liquidation_price =
               (if side = ''long''
                then fsub price (fmul (fdiv price (leverage s)) (liquidation_threshold s))
                else fadd price (fmul (fdiv price (leverage s)) (liquidation_threshold s))) \<rparr> \<and>
         completed_trades s' = completed_trades s \<and>
         (is_double (balance s) \<longrightarrow>
            (0 \<le> fmul (fmul (position_size s) (leverage s)) (trading_fee s) \<longrightarrow>
               balance s' \<le> balance s) \<and>
            (balance s' < balance s \<longrightarrow>
               0 < fmul (fmul (position_size s) (leverage s)) (trading_fee s)))"
proof -
  note o = open_position_True [OF assms]
  have b: "balance s' = fsub (balance s) (entry_fee s)" using o(4) by simp
  have m: "is_double (balance s) \<Longrightarrow> 0 \<le> entry_fee s \<Longrightarrow> balance s' \<le> balance s"
    using round_double_mono [of "balance s - entry_fee s" "balance s"]
    by (simp add: b fsub_def is_double_def)
  have n: "is_double (balance s) \<Longrightarrow> entry_fee s \<le> 0 \<Longrightarrow> balance s \<le> balance s'"
    using round_double_mono [of "balance s" "balance s - entry_fee s"]
    by (simp add: b fsub_def is_double_def)
  from n have n': "is_double (balance s) \<Longrightarrow> balance s' < balance s \<Longrightarrow> 0 < entry_fee s"
    by (cases "entry_fee s \<le> 0") simp_all
  show ?thesis
    using o(1) m n' unfolding o(4)
    by (simp add: entry_fee_def opened_position_def)
qed

text \<open>The spec's example: with leverage 5 and threshold 0.8, a long position opened at 100
  is liquidated at 84 and a short one at 116; the fee of 0.5 leaves a balance of 999.5.\<close>

theorem open_position_success_witness:
  "(\<exists>s'. open_position ''long'' 100 0 default_strategy = (Inr True, s') \<and>
         map_option p_liquidation_price (current_position s') = Some 84 \<and>
         balance s' = 999.5 \<and> total_fees_paid s' = 0.5 \<and> balance s' < balance default_strategy) \<and>
   (\<exists>s'. open_position ''short'' 100 0 default_strategy = (Inr True, s') \<and>
         map_option p_liquidation_price (current_position s') = Some 116)"
proof -
  define sl where "sl = snd (open_position ''long'' 100 0 default_strategy)"
  define ss where "ss = snd (open_position ''short'' 100 0 default_strategy)"
  have "fst (open_position ''long'' 100 0 default_strategy) = Inr True"
    "fst (open_position ''short'' 100 0 default_strategy) = Inr True"
    by (simp_all add: tick_eval)
  then have l: "open_position ''long'' 100 0 default_strategy = (Inr True, sl)"
    and sh: "open_position ''short'' 100 0 default_strategy = (Inr True, ss)"
    by (simp_all add: sl_def ss_def prod_eq_iff)
  note cfg = default_strategy_fields
  have d: "is_double (balance default_strategy)"
    by (simp add: is_double_def cfg rd_at)
  from open_position_success [OF l] d
  have 1: "map_option p_liquidation_price (current_position sl) = Some 84 \<and>
         balance sl = 999.5 \<and> total_fees_paid sl = 0.5 \<and> balance sl < balance default_strategy"
    by (simp add: cfg rd_at)
  from open_position_success [OF sh]
  have 2: "map_option p_liquidation_price (current_position ss) = Some 116"
    by (simp add: cfg rd_at)
  from l sh 1 2 show ?thesis by blast
qed

text \<open>Claim C3 as stated fails where the fee does not register in the balance: with a fee
  rate of 0 the open succeeds and the balance stays at 1000; with a fee rate of
  \<open>10\<^sup>-\<^sup>2\<^sup>0\<close> the fee is positive, the open succeeds, and the rounded difference is 1000
  again.\<close>

theorem open_position_zero_fee_counterexample:
  "fst (open_position ''long'' 100 0 (default_strategy\<lparr>trading_fee := 0\<rparr>)) = Inr True \<and>
   \<not> balance (snd (open_position ''long'' 100 0 (default_strategy\<lparr>trading_fee := 0\<rparr>)))
       < balance (default_strategy\<lparr>trading_fee := 0\<rparr>) \<and>
   0 < entry_fee (default_strategy\<lparr>trading_fee := round_double (1 / 10 ^ 20)\<rparr>) \<and>
   fst (open_position ''long'' 100 0
          (default_strategy\<lparr>trading_fee := round_double (1 / 10 ^ 20)\<rparr>)) = Inr True \<and>
   \<not> balance (snd (open_position ''long'' 100 0
          (default_strategy\<lparr>trading_fee := round_double (1 / 10 ^ 20)\<rparr>)))
       < balance (default_strategy\<lparr>trading_fee := round_double (1 / 10 ^ 20)\<rparr>)"
  by (simp add: tick_eval round_double_at [where e = "- 67"] round_double_at [where e = "- 58"])


subsection \<open>Exit fee after a change of leverage\<close>

text \<open>
  Claim C10, as amended. Let a position be opened on engine \<open>s0\<close> at price \<open>p0\<close>, let
  \<open>update_strategy_params\<close> then set the leverage to \<open>lev\<close> (and possibly other parameters),
  and let the position be closed at price \<open>p1\<close>. The close succeeds; the trade records the
  leverage stored in the position, and its gross PnL uses that stored leverage; the exit
  fee is the position's size times the engine's current leverage \<open>lev\<close> times the fee
  rate, while the entry fee was computed with the leverage at the open (all products in
  doubles). The two fees differ only if the leverage was changed; a changed leverage need
  not change the fee.
\<close>

theorem exit_fee_uses_engine_leverage:
  assumes o: "open_position side p0 t0 s0 = (Inr True, s1)"
      and u: "strategy b = s1"
      and c: "close_position p1 t1 reason
                (strategy (update_strategy_params (Some lev) psz lb mts b)) = (r, s2)"
  shows "\<exists>tr. r = Some tr \<and>
           t_leverage tr = leverage s0 \<and>
           t_pnl tr =
             fsub (if side = ''long''
                   then fmul (fmul (fsub p1 p0) (position_size s0)) (leverage s0)
                   else fmul (fmul (fsub p0 p1) (position_size s0)) (leverage s0))
                  (fmul (fmul (position_size s0) lev) (trading_fee s0)) \<and>
           total_fees_paid s2 =
             fadd (total_fees_paid s1) (fmul (fmul (position_size s0) lev) (trading_fee s0)) \<and>
           total_fees_paid s1 =
             fadd (total_fees_paid s0)
               (fmul (fmul (position_size s0) (leverage s0)) (trading_fee s0)) \<and>
           (fmul (fmul (position_size s0) lev) (trading_fee s0)
              \<noteq> fmul (fmul (position_size s0) (leverage s0)) (trading_fee s0) \<longrightarrow>
            lev \<noteq> leverage s0)"
proof -
  let ?s = "strategy (update_strategy_params (Some lev) psz lb mts b)"
  let ?p = "opened_position s0 side p0 t0"
  note s1 = open_position_True(4) [OF o]
  have p: "current_position s1 = Some ?p"
    and f: "total_fees_paid s1 = fadd (total_fees_paid s0) (entry_fee s0)"
    and tf: "trading_fee s1 = trading_fee s0"
    by (simp_all add: s1)
  have cp: "current_position ?s = Some ?p" "leverage ?s = lev" "trading_fee ?s = trading_fee s0"
      "total_fees_paid ?s = total_fees_paid s1"
    using p u tf by (simp_all add: update_strategy_params_fields)
  from close_position_open [OF cp(1), of p1 t1 reason] c
  show ?thesis
    by (auto simp: cp f calculate_pnl_def closing_trade_def entry_fee_def exit_fee_def
          opened_position_def)
qed

text \<open>Default engine, long at 100, leverage changed from 5 to 10, closed at 110: the fees
  paid are 0.5 after the open and 1.5 after the close, the net PnL is 5000 - 1.\<close>

theorem exit_fee_uses_engine_leverage_witness:
  "\<exists>s1 tr s2. open_position ''long'' 100 0 default_strategy = (Inr True, s1) \<and>
     close_position 110 1 ''manual''
       (strategy (update_strategy_params (Some 10) None None None
          \<lparr>strategy = s1, last_price = Some 100, last_update = Some 0, trade_log = []\<rparr>))
       = (Some tr, s2) \<and>
     t_leverage tr = 5 \<and> t_pnl tr = 4999 \<and>
     total_fees_paid s1 = 0.5 \<and> total_fees_paid s2 = 1.5"
proof -
  define s1 where "s1 = snd (open_position ''long'' 100 0 default_strategy)"
  define b where "b = \<lparr>strategy = s1, last_price = Some 100, last_update = Some 0, trade_log = []\<rparr>"
  define r where "r = close_position 110 1 ''manual''
       (strategy (update_strategy_params (Some 10) None None None b))"
  have "fst (open_position ''long'' 100 0 default_strategy) = Inr True"
    by (simp add: tick_eval)
  then have o: "open_position ''long'' 100 0 default_strategy = (Inr True, s1)"
    by (simp add: s1_def prod_eq_iff)
  have u: "strategy b = s1" by (simp add: b_def)
  have c: "close_position 110 1 ''manual''
       (strategy (update_strategy_params (Some 10) None None None b)) = (fst r, snd r)"
    by (simp add: r_def)
  let ?d = default_strategy
  have v: "leverage ?d = 5"
    "fsub (fmul (fmul (fsub 110 100) (position_size ?d)) (leverage ?d))
          (fmul (fmul (position_size ?d) 10) (trading_fee ?d)) = 4999"
    "fadd (total_fees_paid ?d) (fmul (fmul (position_size ?d) (leverage ?d)) (trading_fee ?d)) = 0.5"
    "fadd 0.5 (fmul (fmul (position_size ?d) 10) (trading_fee ?d)) = 1.5"
    by (simp_all add: default_strategy_fields rd_at)
  from exit_fee_uses_engine_leverage [OF o u c]
  obtain tr where t: "fst r = Some tr" "t_leverage tr = leverage ?d"
     "t_pnl tr = fsub (fmul (fmul (fsub 110 100) (position_size ?d)) (leverage ?d))
          (fmul (fmul (position_size ?d) 10) (trading_fee ?d))"
     "total_fees_paid (snd r) =
        fadd (total_fees_paid s1) (fmul (fmul (position_size ?d) 10) (trading_fee ?d))"
     "total_fees_paid s1 =
        fadd (total_fees_paid ?d) (fmul (fmul (position_size ?d) (leverage ?d)) (trading_fee ?d))"
    by auto
  have f1: "total_fees_paid s1 = 0.5" by (simp only: t(5) v(3))
  have f2: "total_fees_paid (snd r) = 1.5" by (simp only: t(4) f1 v(4))
  have "t_pnl tr = 4999" by (simp only: t(3) v(2))
  moreover have "t_leverage tr = 5" by (simp only: t(2) v(1))
  ultimately show ?thesis using o c t(1) f1 f2 unfolding b_def by (metis prod.collapse)
qed

text \<open>Claim C10 as stated fails in two ways. When the fee rate is 0, the leverage is changed
  from 5 to 10 while the position is open, and the exit fee equals the entry fee (both are
  0). When size 130 was opened with leverage 15.5 and the leverage is then set to the next
  double, the fee rate being the default, the entry fee is not 0 and the exit fee is the
  same double.\<close>

theorem exit_fee_zero_rate_counterexample:
  "fst (open_position ''long'' 100 0 (default_strategy\<lparr>trading_fee := 0\<rparr>)) = Inr True \<and>
   leverage (default_strategy\<lparr>trading_fee := 0\<rparr>) = 5 \<and>
   leverage (strategy zero_fee_releveraged) = 10 \<and>
   map_option p_leverage (current_position (strategy zero_fee_releveraged)) = Some 5 \<and>
   map_option (exit_fee (strategy zero_fee_releveraged))
       (current_position (strategy zero_fee_releveraged))
     = Some (entry_fee (default_strategy\<lparr>trading_fee := 0\<rparr>)) \<and>
   fst (open_position ''long'' 100 0 (default_strategy\<lparr>position_size := 130, leverage := 15.5\<rparr>))
     = Inr True \<and>
   leverage (strategy absorbed_releveraged)
     \<noteq> leverage (default_strategy\<lparr>position_size := 130, leverage := 15.5\<rparr>) \<and>
   is_double (leverage (strategy absorbed_releveraged)) \<and>
   entry_fee (default_strategy\<lparr>position_size := 130, leverage := 15.5\<rparr>) \<noteq> 0 \<and>
   map_option (exit_fee (strategy absorbed_releveraged))
       (current_position (strategy absorbed_releveraged))
     = Some (entry_fee (default_strategy\<lparr>position_size := 130, leverage := 15.5\<rparr>))"
  by (simp add: zero_fee_releveraged_def absorbed_releveraged_def update_strategy_params_def
        is_double_def tick_eval)


subsection \<open>Statistics\<close>












subsection \<open>Reset\<close>

text \<open>What \<open>reset_strategy\<close> always does, and what it does to an open position: with a last
  price that Python counts as true the position is closed by a manual close; with no last
  price, or with a last price of 0, the position is kept.\<close>

lemma reset_strategy_clears:
  "completed_trades (strategy (reset_strategy now1 now2 b)) = []"
  "balance (strategy (reset_strategy now1 now2 b)) = 1000"
  "total_fees_paid (strategy (reset_strategy now1 now2 b)) = 0"
  "trade_log (reset_strategy now1 now2 b) = []"
  by (simp_all add: reset_strategy_def Let_def)

lemma manual_close_position_priced:
  assumes "current_position (strategy b) = Some p" "last_price b = Some lp" "lp \<noteq> 0"
  shows "manual_close_position now1 now2 b =
           (Some (closing_trade (strategy b) p lp now1 ''manual''),
            log_trading_action ''manual_close'' lp now2
              (b\<lparr>strategy := snd (close_position lp now1 ''manual'' (strategy b))\<rparr>))"
  using assms by (simp add: manual_close_position_def close_position_open)

lemma log_trading_action_strategy:
  "strategy (log_trading_action a price ts b) = strategy b"
  by (simp add: log_trading_action_def Let_def)

lemma reset_strategy_closes:
  assumes "current_position (strategy b) = Some p" "last_price b = Some lp" "lp \<noteq> 0"
  shows "current_position (strategy (reset_strategy now1 now2 b)) = None"
  using assms
  by (simp add: reset_strategy_def Let_def manual_close_position_priced [OF assms]
        log_trading_action_strategy close_position_open)

lemma reset_strategy_keeps_position:
  assumes "last_price b = None \<or> last_price b = Some 0"
  shows "current_position (strategy (reset_strategy now1 now2 b)) = current_position (strategy b)"
  using assms
  by (auto simp: reset_strategy_def Let_def manual_close_position_def)


text \<open>The default bot after the prices 3, 2, 1, 0.5 and 0: the fourth price opened a short
  position, the fifth neither liquidated nor closed it, and the last price is 0.\<close>

lemmas bot_eval = fetch_and_process_price_def log_trading_action_def get_current_pnl_def
  default_bot_def init_bot_def init_strategy_def tick_eval

lemma zero_price_bot_eval:
  "zero_price_bot =
     \<lparr> strategy = (strategy default_bot)
         \<lparr> price_history := [(1, 3), (2, 2), (3, 1), (4, 0.5), (5, 0)],
           current_position := Some (opened_position (strategy default_bot) ''short'' 0.5 4),
           balance := 999.5, total_fees_paid := 0.5 \<rparr>,
       last_price = Some 0, last_update = Some 5,
       trade_log = [\<lparr> le_timestamp = 4, le_action = ''opened_short'', le_price = 0.5,
                       le_position = Some (''short'', 100, 5, 0) \<rparr>] \<rparr>"
proof -
  define b1 where "b1 = fetch_and_process_price (Some 3) 1 default_bot"
  define b2 where "b2 = fetch_and_process_price (Some 2) 2 b1"
  define b3 where "b3 = fetch_and_process_price (Some 1) 3 b2"
  define b4 where "b4 = fetch_and_process_price (Some 0.5) 4 b3"
  define b5 where "b5 = fetch_and_process_price (Some 0) 5 b4"
  have 1: "b1 = default_bot\<lparr>strategy := (strategy default_bot)\<lparr>price_history := [(1, 3)]\<rparr>,
                 last_price := Some 3, last_update := Some 1\<rparr>"
    by (simp add: b1_def bot_eval)
  have 2: "b2 = default_bot\<lparr>strategy := (strategy default_bot)\<lparr>price_history := [(1, 3), (2, 2)]\<rparr>,
                 last_price := Some 2, last_update := Some 2\<rparr>"
    by (simp add: b2_def 1 bot_eval)
  have 3: "b3 = default_bot\<lparr>strategy := (strategy default_bot)\<lparr>price_history := [(1, 3), (2, 2), (3, 1)]\<rparr>,
                 last_price := Some 1, last_update := Some 3\<rparr>"
    by (simp add: b3_def 2 bot_eval)
  have 4: "b4 = \<lparr> strategy = (strategy default_bot)
         \<lparr> price_history := [(1, 3), (2, 2), (3, 1), (4, 0.5)],
           current_position := Some (opened_position (strategy default_bot) ''short'' 0.5 4),
           balance := 999.5, total_fees_paid := 0.5 \<rparr>,
       last_price = Some 0.5, last_update = Some 4,
       trade_log = [\<lparr> le_timestamp = 4, le_action = ''opened_short'', le_price = 0.5,
                       le_position = Some (''short'', 100, 5, 0) \<rparr>] \<rparr>"
    by (simp add: b4_def 3 bot_eval)
  have 5: "b5 = b4\<lparr>strategy := (strategy b4)\<lparr>price_history := [(1, 3), (2, 2), (3, 1), (4, 0.5), (5, 0)]\<rparr>,
                 last_price := Some 0, last_update := Some 5\<rparr>"
    by (simp add: b5_def 4 bot_eval)
  have "zero_price_bot = b5"
    by (simp add: zero_price_bot_def b1_def b2_def b3_def b4_def b5_def)
  then show ?thesis by (simp add: 5 4 default_bot_def init_bot_def init_strategy_def)
qed

text \<open>
  Claim C8 at that state. A position is open and the last known price is 0, which
  \<^verbatim>\<open>not self.last_price\<close> takes for a missing price: the manual close inside the reset
  returns \<^verbatim>\<open>None\<close> and records no trade, the ledger and the balance are reset all the
  same, and the position is still open after the reset.
\<close>

theorem reset_leaves_position_open:
  "current_position (strategy zero_price_bot) \<noteq> None \<and>
   last_price zero_price_bot = Some 0 \<and>
   fst (manual_close_position 6 6 zero_price_bot) = None \<and>
   current_position (strategy (reset_strategy 6 6 zero_price_bot))
     = current_position (strategy zero_price_bot) \<and>
   completed_trades (strategy (reset_strategy 6 6 zero_price_bot)) = [] \<and>
   balance (strategy (reset_strategy 6 6 zero_price_bot)) = 1000"
  by (simp add: zero_price_bot_eval reset_strategy_def manual_close_position_def Let_def)

end
